theory Spec2Isabelle
  imports Main
begin

section \<open>Errors\<close>

text \<open>
  \<^verbatim>\<open>type RequestError struct { StatusCode int; Status string; Body []byte }\<close>
  (client.go, lines 17-21). Go strings and byte slices are byte sequences; \<open>string\<close> is a
  list of 8-bit characters.
\<close>

record RequestError =
  StatusCode :: int
  Status :: string
  Body :: string

text \<open>\<^verbatim>\<open>func (e *RequestError) Error() string\<close> (client.go, lines 23-25).\<close>

definition Error :: "RequestError \<Rightarrow> string" where
  "Error e = ''HTTP request failed: '' @ Status e"

text \<open>
  Go's \<open>error\<close> values that the two helpers can return or meet. \<open>ReqError\<close> is the
  client's own \<open>*RequestError\<close>. The others come from the standard library:
  \<open>EOF\<close>, \<open>ErrUnexpectedEOF\<close>, \<open>ErrShortWrite\<close> and \<open>errInvalidWrite\<close> of package io,
  \<open>UnsupportedTypeError\<close> (with the type) and \<open>SyntaxError\<close> (with the offending byte) of
  encoding/json, the two argument errors of
  \<open>http.NewRequestWithContext\<close>, \<open>UrlError\<close> for the \<open>*url.Error\<close> in which \<open>url.Parse\<close>
  returns an error (without its copy of the URL), and \<open>LibError\<close> for every other error
  value (a transport failure, an error of the caller's writer or decode target), told
  apart by its message.
\<close>

datatype error =
    EOF
  | ErrUnexpectedEOF
  | ErrShortWrite
  | errInvalidWrite
  | UnsupportedTypeError string
  | SyntaxError string
  | InvalidMethod string
  | NilContext
  | UrlError error
  | LibError string
  | ReqError RequestError

section \<open>The standard library's JSON encoder\<close>

text \<open>
  \<open>newRequest\<close> serialises its body with \<open>json.NewEncoder(buf)\<close>,
  \<open>enc.SetEscapeHTML(false)\<close>, \<open>enc.Encode(body)\<close>. The encoder is Go's encoding/json,
  which is not part of the repository; this section models it as the library documents
  and implements it, with the \<open>escapeHTML\<close> option as an argument, so that the effect of
  the client's \<open>SetEscapeHTML(false)\<close> is visible.

  A body is an \<open>interface{}\<close>. The model takes the value as encoding/json sees it: null
  (a typed nil pointer, map or slice), a boolean, an integer, a string, an array or slice,
  an object (the fields of a struct in declaration order, or the entries of a map in the
  sorted order in which the encoder writes them), or a value of a kind json cannot encode
  (a channel or a function), for which \<open>Encode\<close> returns an \<open>UnsupportedTypeError\<close>.
  Floating-point members are left out of the model.
\<close>

datatype jvalue =
    JNull
  | JBool bool
  | JInt int
  | JString string
  | JArray "jvalue list"
  | JObject "(string \<times> jvalue) list"
  | JUnsupported string

subsection \<open>unicode/utf8: DecodeRuneInString\<close>

definition RuneError :: nat where "RuneError = 0xFFFD"
definition RuneSelf :: nat where "RuneSelf = 0x80"
definition UTFMax :: nat where "UTFMax = 4"

definition locb :: nat where "locb = 0x80"
definition hicb :: nat where "hicb = 0xBF"

text \<open>The entries of utf8's table \<open>first\<close>: \<open>as\<close> is ASCII, \<open>xx\<close> invalid, the others
  hold the size in the low bits and the index of the accept range in the high ones.\<close>

definition t_xx :: nat where "t_xx = 0xF1"
definition t_as :: nat where "t_as = 0xF0"
definition t_s1 :: nat where "t_s1 = 0x02"
definition t_s2 :: nat where "t_s2 = 0x13"
definition t_s3 :: nat where "t_s3 = 0x03"
definition t_s4 :: nat where "t_s4 = 0x23"
definition t_s5 :: nat where "t_s5 = 0x34"
definition t_s6 :: nat where "t_s6 = 0x04"
definition t_s7 :: nat where "t_s7 = 0x44"

definition first_tab :: "nat \<Rightarrow> nat" where
  "first_tab b =
     (if b < 0x80 then t_as
      else if b < 0xC2 then t_xx
      else if b < 0xE0 then t_s1
      else if b = 0xE0 then t_s2
      else if b < 0xED then t_s3
      else if b = 0xED then t_s4
      else if b < 0xF0 then t_s3
      else if b = 0xF0 then t_s5
      else if b < 0xF4 then t_s6
      else if b = 0xF4 then t_s7
      else t_xx)"

text \<open>\<open>acceptRanges\<close>: the bounds of the second byte.\<close>

definition acceptRanges :: "nat \<Rightarrow> nat \<times> nat" where
  "acceptRanges i =
     (if i = 0 then (locb, hicb)
      else if i = 1 then (0xA0, hicb)
      else if i = 2 then (locb, 0x9F)
      else if i = 3 then (0x90, hicb)
      else (locb, 0x8F))"

text \<open>The rune at the head of a string and its width in bytes; an invalid or short
  encoding gives \<open>(RuneError, 1)\<close>, the empty string \<open>(RuneError, 0)\<close>.\<close>

definition DecodeRuneInString :: "string \<Rightarrow> nat \<times> nat" where
  "DecodeRuneInString s =
     (let n = length s in
      if n < 1 then (RuneError, 0)
      else
        let s0 = (of_char (s ! 0) :: nat); x = first_tab s0 in
        if x \<ge> t_as then ((if x = t_xx then RuneError else s0), 1)
        else
          let sz = x mod 8; (lo, hi) = acceptRanges (x div 16) in
          if n < sz then (RuneError, 1)
          else
            let s1 = (of_char (s ! 1) :: nat) in
            if s1 < lo \<or> hi < s1 then (RuneError, 1)
            else if sz \<le> 2 then ((s0 mod 32) * 64 + (s1 mod 64), 2)
            else
              let s2 = (of_char (s ! 2) :: nat) in
              if s2 < locb \<or> hicb < s2 then (RuneError, 1)
              else if sz \<le> 3 then ((s0 mod 16) * 4096 + (s1 mod 64) * 64 + (s2 mod 64), 3)
              else
                let s3 = (of_char (s ! 3) :: nat) in
                if s3 < locb \<or> hicb < s3 then (RuneError, 1)
                else ((s0 mod 8) * 262144 + (s1 mod 64) * 4096 + (s2 mod 64) * 64
                        + (s3 mod 64), 4))"

subsection \<open>encoding/json: strings\<close>

text \<open>\<open>safeSet\<close> holds the ASCII bytes that need no escape in a JSON string: all from
  space on but the double quote and the backslash. \<open>htmlSafeSet\<close> leaves out
  \<open><\<close>, \<open>>\<close> and \<open>&\<close> as well.\<close>

definition safeSet :: "char \<Rightarrow> bool" where
  "safeSet b = (let n = (of_char b :: nat) in 0x20 \<le> n \<and> n < 0x80 \<and> n \<noteq> 0x22 \<and> n \<noteq> 0x5C)"

definition htmlSafeSet :: "char \<Rightarrow> bool" where
  "htmlSafeSet b = (safeSet b \<and> b \<noteq> CHR ''<'' \<and> b \<noteq> CHR ''>'' \<and> b \<noteq> CHR ''&'')"

definition hex :: "nat \<Rightarrow> char" where
  "hex i = ''0123456789abcdef'' ! i"

text \<open>The escape written for an ASCII byte that is not in the safe set in force.\<close>

definition escape_byte :: "char \<Rightarrow> string" where
  "escape_byte b =
     (let n = (of_char b :: nat) in
      if n = 0x5C \<or> n = 0x22 then [CHR 0x5C, b]
      else if n = 0x08 then [CHR 0x5C, CHR ''b'']
      else if n = 0x0C then [CHR 0x5C, CHR ''f'']
      else if n = 0x0A then [CHR 0x5C, CHR ''n'']
      else if n = 0x0D then [CHR 0x5C, CHR ''r'']
      else if n = 0x09 then [CHR 0x5C, CHR ''t'']
      else [CHR 0x5C, CHR ''u'', CHR ''0'', CHR ''0'', hex (n div 16), hex (n mod 16)])"

lemma first_tab_size: "first_tab b < t_as \<Longrightarrow> first_tab b mod 8 = 2 \<or> first_tab b mod 8 = 3 \<or> first_tab b mod 8 = 4"
  by (simp add: first_tab_def t_as_def t_xx_def t_s1_def t_s2_def t_s3_def t_s4_def t_s5_def
      t_s6_def t_s7_def split: if_splits)

lemma DecodeRuneInString_size:
  assumes "s \<noteq> []"
  shows "1 \<le> snd (DecodeRuneInString s) \<and> snd (DecodeRuneInString s) \<le> length s"
proof (cases "t_as \<le> first_tab (of_char (s ! 0))")
  case True
  with assms show ?thesis
    by (cases s) (simp_all add: DecodeRuneInString_def Let_def)
next
  case False
  then have "first_tab (of_char (s ! 0)) mod 8 = 2 \<or> first_tab (of_char (s ! 0)) mod 8 = 3
      \<or> first_tab (of_char (s ! 0)) mod 8 = 4"
    using first_tab_size [of "of_char (s ! 0)"] by simp
  then show ?thesis
  proof (elim disjE)
    assume "first_tab (of_char (s ! 0)) mod 8 = 2"
    with assms False show ?thesis
      by (cases s) (auto simp add: DecodeRuneInString_def Let_def Suc_le_eq split: prod.split)
  next
    assume "first_tab (of_char (s ! 0)) mod 8 = 3"
    with assms False show ?thesis
      by (cases s) (auto simp add: DecodeRuneInString_def Let_def Suc_le_eq split: prod.split)
  next
    assume "first_tab (of_char (s ! 0)) mod 8 = 4"
    with assms False show ?thesis
      by (cases s) (auto simp add: DecodeRuneInString_def Let_def Suc_le_eq split: prod.split)
  qed
qed

lemma drop_rune_shorter:
  "Suc (length src) - snd (DecodeRuneInString (take UTFMax (b # src))) < Suc (length src)"
  using DecodeRuneInString_size [of "take UTFMax (b # src)"]
  by (simp add: UTFMax_def)

text \<open>The loop of \<open>appendString\<close> between the two quotes: safe ASCII bytes and valid
  multi-byte runes are copied, other ASCII bytes are escaped, an invalid byte becomes
  the escape of U+FFFD, and U+2028 and U+2029 are always escaped.\<close>

function appendString_loop :: "bool \<Rightarrow> string \<Rightarrow> string" where
  "appendString_loop escapeHTML [] = []"
| "appendString_loop escapeHTML (b # src) =
     (if (of_char b :: nat) < RuneSelf then
        (if htmlSafeSet b \<or> (\<not> escapeHTML \<and> safeSet b)
         then b # appendString_loop escapeHTML src
         else escape_byte b @ appendString_loop escapeHTML src)
      else
        (let c = fst (DecodeRuneInString (take UTFMax (b # src)));
             sz = snd (DecodeRuneInString (take UTFMax (b # src))) in
         if c = RuneError \<and> sz = 1
         then [CHR 0x5C, CHR ''u'', CHR ''f'', CHR ''f'', CHR ''f'', CHR ''d'']
                @ appendString_loop escapeHTML (drop sz (b # src))
         else if c = 0x2028 \<or> c = 0x2029
         then [CHR 0x5C, CHR ''u'', CHR ''2'', CHR ''0'', CHR ''2'', hex (c mod 16)]
                @ appendString_loop escapeHTML (drop sz (b # src))
         else take sz (b # src) @ appendString_loop escapeHTML (drop sz (b # src))))"
  by pat_completeness auto
termination
  by (relation "measure (\<lambda>(e, s). length s)") (simp_all add: drop_rune_shorter)

definition appendString :: "bool \<Rightarrow> string \<Rightarrow> string" where
  "appendString escapeHTML src = [CHR 0x22] @ appendString_loop escapeHTML src @ [CHR 0x22]"

subsection \<open>encoding/json: values\<close>

text \<open>Integers are written in decimal, as \<open>strconv.AppendInt(b, i, 10)\<close> does.\<close>

fun digits :: "nat \<Rightarrow> string" where
  "digits n = (if n < 10 then [hex n] else digits (n div 10) @ [hex (n mod 10)])"

declare digits.simps [simp del]

definition AppendInt :: "int \<Rightarrow> string" where
  "AppendInt i = (if i < 0 then CHR ''-'' # digits (nat (- i)) else digits (nat i))"

text \<open>
  \<open>marshal\<close> writes one value; \<open>arrayEncoder\<close> writes the elements of an array with a
  comma before each but the first, \<open>structEncoder\<close> the members of an object, each key
  quoted by \<open>appendString\<close> under the same option. The first value that cannot be encoded
  aborts the whole encoding with its error.
\<close>

fun marshal :: "bool \<Rightarrow> jvalue \<Rightarrow> error + string"
  and arrayEncoder :: "bool \<Rightarrow> jvalue list \<Rightarrow> error + string"
  and structEncoder :: "bool \<Rightarrow> (string \<times> jvalue) list \<Rightarrow> error + string" where
  "marshal escapeHTML JNull = Inr ''null''"
| "marshal escapeHTML (JBool b) = Inr (if b then ''true'' else ''false'')"
| "marshal escapeHTML (JInt i) = Inr (AppendInt i)"
| "marshal escapeHTML (JString s) = Inr (appendString escapeHTML s)"
| "marshal escapeHTML (JArray xs) =
     (case arrayEncoder escapeHTML xs of
        Inl err \<Rightarrow> Inl err
      | Inr b \<Rightarrow> Inr (''['' @ b @ '']''))"
| "marshal escapeHTML (JObject fs) =
     (case structEncoder escapeHTML fs of
        Inl err \<Rightarrow> Inl err
      | Inr b \<Rightarrow> Inr (''{'' @ b @ ''}''))"
| "marshal escapeHTML (JUnsupported t) = Inl (UnsupportedTypeError t)"
| "arrayEncoder escapeHTML [] = Inr []"
| "arrayEncoder escapeHTML (x # xs) =
     (case marshal escapeHTML x of
        Inl err \<Rightarrow> Inl err
      | Inr b \<Rightarrow>
          (case arrayEncoder escapeHTML xs of
             Inl err \<Rightarrow> Inl err
           | Inr bs \<Rightarrow> Inr (if xs = [] then b else b @ '','' @ bs)))"
| "structEncoder escapeHTML [] = Inr []"
| "structEncoder escapeHTML ((k, x) # fs) =
     (case marshal escapeHTML x of
        Inl err \<Rightarrow> Inl err
      | Inr b \<Rightarrow>
          (case structEncoder escapeHTML fs of
             Inl err \<Rightarrow> Inl err
           | Inr bs \<Rightarrow>
               Inr (if fs = [] then appendString escapeHTML k @ '':'' @ b
                    else appendString escapeHTML k @ '':'' @ b @ '','' @ bs)))"

text \<open>
  \<open>Encoder.Encode\<close>: "writes the JSON encoding of v to the stream, followed by a newline
  character". The result is what the encoder writes to its buffer (a \<open>bytes.Buffer\<close>,
  whose \<open>Write\<close> does not fail); nothing is written when the value cannot be encoded.
\<close>

definition Encode :: "bool \<Rightarrow> jvalue \<Rightarrow> error + string" where
  "Encode escapeHTML v =
     (case marshal escapeHTML v of
        Inl err \<Rightarrow> Inl err
      | Inr b \<Rightarrow> Inr (b @ [CHR 0x0A]))"

section \<open>The standard library's requests and headers\<close>

text \<open>
  An \<open>http.Header\<close> is a \<open>map[string][]string\<close>. \<open>Header.Set\<close> stores the value under the
  canonical form of the key (\<open>textproto.CanonicalMIMEHeaderKey\<close>): when every byte of the
  key is a token byte, the first letter and each letter after a hyphen in upper case and
  the others in lower case; any other key unchanged.
\<close>

type_synonym Header = "string \<rightharpoonup> string list"

definition isTokenTable :: "char \<Rightarrow> bool" where
  "isTokenTable c =
     (let n = (of_char c :: nat) in
      (0x30 \<le> n \<and> n \<le> 0x39) \<or> (0x41 \<le> n \<and> n \<le> 0x5A) \<or> (0x61 \<le> n \<and> n \<le> 0x7A)
      \<or> n \<in> set [0x21, 0x23, 0x24, 0x25, 0x26, 0x27, 0x2A, 0x2B, 0x2D, 0x2E, 0x5E, 0x5F,
                  0x60, 0x7C, 0x7E])"

definition toLower :: nat where "toLower = 0x20"

fun canonicalMIMEHeaderKey :: "bool \<Rightarrow> string \<Rightarrow> string" where
  "canonicalMIMEHeaderKey upper [] = []"
| "canonicalMIMEHeaderKey upper (c # a) =
     (let n = (of_char c :: nat);
          c' = (if upper \<and> 0x61 \<le> n \<and> n \<le> 0x7A then char_of (n - toLower)
                else if \<not> upper \<and> 0x41 \<le> n \<and> n \<le> 0x5A then char_of (n + toLower)
                else c)
      in c' # canonicalMIMEHeaderKey (c' = CHR ''-'') a)"

definition CanonicalMIMEHeaderKey :: "string \<Rightarrow> string" where
  "CanonicalMIMEHeaderKey s = (if list_all isTokenTable s then canonicalMIMEHeaderKey True s else s)"

definition Header_Set :: "Header \<Rightarrow> string \<Rightarrow> string \<Rightarrow> Header" where
  "Header_Set h key v = h(CanonicalMIMEHeaderKey key \<mapsto> [v])"

subsection \<open>net/url\<close>

text \<open>
  A \<open>url.URL\<close> is the parsed form of a URL. The model keeps the scheme and the host as
  they are; \<open>others\<close> stands for the remaining fields (user, path, query, fragment and
  their raw forms), which the library fills and reads in ways that are not modelled.
\<close>

record 'r URL =
  Scheme :: string
  Host :: string
  others :: 'r

definition isCTL :: "char \<Rightarrow> bool" where
  "isCTL c = ((of_char c :: nat) < 0x20 \<or> (of_char c :: nat) = 0x7F)"

definition stringContainsCTLByte :: "string \<Rightarrow> bool" where
  "stringContainsCTLByte s = list_ex isCTL s"

definition isAlpha :: "char \<Rightarrow> bool" where
  "isAlpha c =
     (let n = (of_char c :: nat) in (0x61 \<le> n \<and> n \<le> 0x7A) \<or> (0x41 \<le> n \<and> n \<le> 0x5A))"

definition isDigit :: "char \<Rightarrow> bool" where
  "isDigit c = ((0x30 :: nat) \<le> of_char c \<and> (of_char c :: nat) \<le> 0x39)"

text \<open>
  \<open>getScheme\<close>: the scheme is the text before the first colon, if it begins with a letter
  and holds letters, digits, \<open>+\<close>, \<open>-\<close> and \<open>.\<close> only; a text that begins with a colon is
  an error; any other text has no scheme. The result is the scheme and the text after its
  colon. \<open>seen\<close> is the text before the byte under inspection.
\<close>

fun getScheme_loop :: "string \<Rightarrow> string \<Rightarrow> string \<Rightarrow> error + string \<times> string" where
  "getScheme_loop rawURL seen [] = Inr ([], rawURL)"
| "getScheme_loop rawURL seen (c # cs) =
     (if isAlpha c then getScheme_loop rawURL (seen @ [c]) cs
      else if isDigit c \<or> c = CHR ''+'' \<or> c = CHR ''-'' \<or> c = CHR ''.'' then
        (if seen = [] then Inr ([], rawURL) else getScheme_loop rawURL (seen @ [c]) cs)
      else if c = CHR '':'' then
        (if seen = [] then Inl (LibError ''missing protocol scheme'') else Inr (seen, cs))
      else Inr ([], rawURL))"

definition getScheme :: "string \<Rightarrow> error + string \<times> string" where
  "getScheme rawURL = getScheme_loop rawURL [] rawURL"

text \<open>\<open>strings.ToLower\<close>, on the ASCII text that a scheme is.\<close>

definition ToLower :: "string \<Rightarrow> string" where
  "ToLower s =
     map (\<lambda>c. if (0x41 :: nat) \<le> of_char c \<and> (of_char c :: nat) \<le> 0x5A
               then char_of ((of_char c :: nat) + 0x20) else c) s"

text \<open>
  \<open>url.Parse\<close>: the text is cut at the first \<open>#\<close>; a control character before it is an
  error; the scheme is split off and put in lower case. What the library does with the
  text after the scheme and with the fragment (the query, the authority, the path, their
  escapes) is the argument \<open>parseRest\<close>: given the scheme, that text and the fragment, an
  error, or the host and the other fields; the text \<open>*\<close>, which the library treats
  apart, has no scheme and is part of that. Every error comes back inside a \<open>*url.Error\<close>.
\<close>

definition Parse ::
    "(string \<Rightarrow> string \<Rightarrow> string \<Rightarrow> error + string \<times> 'r) \<Rightarrow> string \<Rightarrow> error + 'r URL" where
  "Parse parseRest rawURL =
     (let u = takeWhile (\<lambda>c. c \<noteq> CHR ''#'') rawURL;
          frag = drop 1 (dropWhile (\<lambda>c. c \<noteq> CHR ''#'') rawURL)
      in if stringContainsCTLByte u
         then Inl (UrlError (LibError ''net/url: invalid control character in URL''))
         else
           case getScheme u of
             Inl err \<Rightarrow> Inl (UrlError err)
           | Inr (scheme, rest) \<Rightarrow>
               (case parseRest (ToLower scheme) rest frag of
                  Inl err \<Rightarrow> Inl (UrlError err)
                | Inr (host, r) \<Rightarrow> Inr \<lparr>Scheme = ToLower scheme, Host = host, others = r\<rparr>))"

text \<open>
  \<open>URL.String\<close> writes the scheme and a colon, when there is a scheme, and then the rest
  of the URL; \<open>tail\<close> is what it writes for the rest.
\<close>

definition URL_String :: "('r URL \<Rightarrow> string) \<Rightarrow> 'r URL \<Rightarrow> string" where
  "URL_String tail u = (if Scheme u \<noteq> [] then Scheme u @ '':'' else []) @ tail u"

text \<open>\<open>strings.LastIndex\<close> for a separator of one byte: the index of its last occurrence,
  or \<open>-1\<close>.\<close>

fun LastIndex_loop :: "string \<Rightarrow> char \<Rightarrow> int \<Rightarrow> int \<Rightarrow> int" where
  "LastIndex_loop [] c i found = found"
| "LastIndex_loop (x # xs) c i found = LastIndex_loop xs c (i + 1) (if x = c then i else found)"

definition LastIndex :: "string \<Rightarrow> char \<Rightarrow> int" where
  "LastIndex s c = LastIndex_loop s c 0 (- 1)"

text \<open>\<open>hasPort\<close> and \<open>removeEmptyPort\<close> of net/http: a host that ends in a colon after
  its last \<open>]\<close> loses that colon.\<close>

definition hasPort :: "string \<Rightarrow> bool" where
  "hasPort s = (LastIndex s CHR '':'' > LastIndex s CHR '']'')"

definition TrimSuffix_colon :: "string \<Rightarrow> string" where
  "TrimSuffix_colon s = (if s \<noteq> [] \<and> last s = CHR '':'' then butlast s else s)"

definition removeEmptyPort :: "string \<Rightarrow> string" where
  "removeEmptyPort host = (if hasPort host then TrimSuffix_colon host else host)"

subsection \<open>net/http: requests\<close>

text \<open>
  A \<open>context.Context\<close> is an opaque handle; a nil context is \<open>None\<close>. Of an
  \<open>http.Request\<close> the model keeps the fields the client sets or reads. \<open>req_URL\<close> is the
  parsed URL. \<open>req_Body\<close> is the payload, \<open>None\<close> for a nil reader.
\<close>

datatype Context = Context nat

record 'r Request =
  req_ctx :: Context
  req_Method :: string
  req_URL :: "'r URL"
  req_Header :: Header
  req_Body :: "string option"

text \<open>\<open>validMethod\<close>: a non-empty sequence of token bytes.\<close>

definition validMethod :: "string \<Rightarrow> bool" where
  "validMethod m = (0 < length m \<and> list_all isTokenTable m)"

text \<open>
  \<open>http.NewRequestWithContext\<close>: an empty method means GET; an invalid method, a nil
  context and a URL that \<open>url.Parse\<close> rejects are errors. The URL of the request is the
  parsed one, with an empty port removed from its host.
\<close>

definition NewRequestWithContext ::
    "(string \<Rightarrow> string \<Rightarrow> string \<Rightarrow> error + string \<times> 'r) \<Rightarrow> Context option \<Rightarrow> string \<Rightarrow> string
      \<Rightarrow> string option \<Rightarrow> error + 'r Request" where
  "NewRequestWithContext parseRest ctx method url body =
     (let method = (if method = [] then ''GET'' else method) in
      if \<not> validMethod method then Inl (InvalidMethod method)
      else
        case ctx of
          None \<Rightarrow> Inl NilContext
        | Some cx \<Rightarrow>
            (case Parse parseRest url of
               Inl err \<Rightarrow> Inl err
             | Inr u \<Rightarrow>
                 Inr \<lparr>req_ctx = cx, req_Method = method,
                      req_URL = u\<lparr>Host := removeEmptyPort (Host u)\<rparr>,
                      req_Header = Map.empty, req_Body = body\<rparr>))"

section \<open>The client\<close>

text \<open>
  \<^verbatim>\<open>type eauth struct { Username, Password, Backend string }\<close> and
  \<^verbatim>\<open>type Client struct { client *http.Client; eauth *eauth; Address, Token string }\<close>
  (client.go, lines 27-50). Of the \<open>http.Client\<close> that \<open>NewClient\<close> builds, the
  model keeps the one setting it is given.
\<close>

record eauth =
  Username :: string
  Password :: string
  Backend :: string

record HttpClient =
  InsecureSkipVerify :: bool

record Client =
  client :: HttpClient
  eauth :: eauth
  Address :: string
  Token :: string

text \<open>\<open>NewClient\<close> (client.go, lines 57-75); the token of a new client is empty.\<close>

definition NewClient :: "string \<Rightarrow> string \<Rightarrow> string \<Rightarrow> string \<Rightarrow> bool \<Rightarrow> Client" where
  "NewClient address username password backend skipVerify =
     (let a = \<lparr>Username = username, Password = password, Backend = backend\<rparr>;
          tr = \<lparr>InsecureSkipVerify = skipVerify\<rparr>
      in \<lparr>client = tr, eauth = a, Address = address, Token = []\<rparr>)"

text \<open>
  \<open>newRequest\<close> (client.go, lines 77-104). The result is the lines given to \<open>log.Printf\<close>
  and the pair the function returns: an error, or the request.
\<close>

definition newRequest ::
    "(string \<Rightarrow> string \<Rightarrow> string \<Rightarrow> error + string \<times> 'r) \<Rightarrow> Client \<Rightarrow> Context option \<Rightarrow> string
      \<Rightarrow> string \<Rightarrow> jvalue option \<Rightarrow> string list \<times> (error + 'r Request)" where
  "newRequest parseRest c ctx method endpoint body =
     (let url = Address c @ ''/'' @ endpoint in
      case (case body of
              None \<Rightarrow> Inr None
            | Some b \<Rightarrow>
                (case Encode False b of
                   Inl err \<Rightarrow> Inl err
                 | Inr buf \<Rightarrow> Inr (Some buf))) of
        Inl err \<Rightarrow> ([], Inl err)
      | Inr buf \<Rightarrow>
          (let lg = [''[DEBUG] Creating request for '' @ url] in
           case NewRequestWithContext parseRest ctx method url buf of
             Inl err \<Rightarrow> (lg, Inl err)
           | Inr req \<Rightarrow>
               (let req = req\<lparr>req_Header := Header_Set (req_Header req) ''Accept'' ''application/json''\<rparr>;
                    req = req\<lparr>req_Header :=
                               Header_Set (req_Header req) ''Content-Type'' ''application/json''\<rparr>;
                    req = (if Token c \<noteq> []
                           then req\<lparr>req_Header := Header_Set (req_Header req) ''X-Auth-Token'' (Token c)\<rparr>
                           else req)
                in (lg, Inr req))))"

section \<open>Responses, writers and decode targets\<close>

text \<open>
  A response body is an \<open>io.ReadCloser\<close>. The model gives what its \<open>Read\<close> calls deliver:
  the chunks of bytes handed out one after another, then the end of the stream, which is
  \<open>io.EOF\<close> (\<open>None\<close>) or a read error. Of an \<open>http.Response\<close> the model keeps the fields
  \<open>do\<close> reads; \<open>resp_Request_URL\<close> is the text of \<open>resp.Request.URL\<close>.
\<close>

record Stream =
  reads :: "string list"
  fails :: "error option"

record Response =
  resp_StatusCode :: int
  resp_Status :: string
  resp_Body :: Stream
  resp_Request_URL :: string

text \<open>\<open>ioutil.ReadAll\<close>: the bytes read before the stream ended, and the read error if
  there was one (\<open>io.EOF\<close> is not reported as an error).\<close>

definition ReadAll :: "Stream \<Rightarrow> string \<times> error option" where
  "ReadAll r = (concat (reads r), fails r)"

text \<open>
  An \<open>io.Writer\<close> is a state and a \<open>Write\<close> method: given the state and a slice, the number
  of bytes it reports written, its error and its new state; or it panics, leaving a state.
\<close>

datatype 'w written = Wrote int "error option" 'w | WritePanic 'w

type_synonym 'w Writer = "'w \<Rightarrow> string \<Rightarrow> 'w written"

datatype 'w copied = Copied int "error option" 'w | CopyPanic 'w

text \<open>
  The loop of \<open>io.Copy\<close>: each non-empty chunk read is written once; a write that reports
  an impossible count, an error or a short count ends the copy with an error, a read
  error ends it with that error, \<open>io.EOF\<close> with none. The result is the pair \<open>io.Copy\<close>
  returns, with the writer as the copy left it. (A writer with a \<open>ReadFrom\<close> method is
  given the stream instead; such a method is expected to do the same.)
\<close>

fun copyBuffer :: "'w Writer \<Rightarrow> 'w \<Rightarrow> string list \<Rightarrow> error option \<Rightarrow> int \<Rightarrow> 'w copied" where
  "copyBuffer Write w [] er written = Copied written er w"
| "copyBuffer Write w (buf # rest) er written =
     (if 0 < length buf then
        (case Write w buf of
           WritePanic w' \<Rightarrow> CopyPanic w'
         | Wrote nw0 ew0 w' \<Rightarrow>
             (let nr = int (length buf);
                  invalid = (nw0 < 0 \<or> nr < nw0);
                  nw = (if invalid then 0 else nw0);
                  ew = (if invalid \<and> ew0 = None then Some errInvalidWrite else ew0);
                  written = written + nw
              in if ew \<noteq> None then Copied written ew w'
                 else if nr \<noteq> nw then Copied written (Some ErrShortWrite) w'
                 else copyBuffer Write w' rest er written))
      else copyBuffer Write w rest er written)"

definition Copy :: "'w Writer \<Rightarrow> 'w \<Rightarrow> Stream \<Rightarrow> 'w copied" where
  "Copy Write w src = copyBuffer Write w (reads src) (fails src) 0"

text \<open>
  A decode target is a value and the way encoding/json fills a value of its type from
  the input (its fields, its \<open>UnmarshalJSON\<close> if it has one): given the stream and the
  value, the error \<open>Decode\<close> returns and the value as it is left; or a panic.
\<close>

datatype 'v decoded = Decoded "error option" 'v | DecodePanic 'v

type_synonym 'v Unmarshaler = "Stream \<Rightarrow> 'v \<Rightarrow> 'v decoded"

definition isSpace :: "char \<Rightarrow> bool" where
  "isSpace c = (c = CHR '' '' \<or> c = CHR 0x09 \<or> c = CHR 0x0D \<or> c = CHR 0x0A)"

text \<open>The bytes at which the scanner's \<open>stateBeginValue\<close> accepts the start of a value.\<close>

definition beginsValue :: "char \<Rightarrow> bool" where
  "beginsValue c =
     (c \<in> set [CHR ''{'', CHR ''['', CHR 0x22, CHR ''-'', CHR ''0'', CHR ''t'', CHR ''f'', CHR ''n'']
      \<or> ((0x31 :: nat) \<le> of_char c \<and> (of_char c :: nat) \<le> 0x39))"

text \<open>
  \<open>json.NewDecoder(r).Decode(v)\<close>, as far as the library fixes it for every target: input
  that ends before any byte other than white space gives \<open>io.EOF\<close>, or the read error that
  ended it, and a first byte that cannot begin a value gives a \<open>SyntaxError\<close>; in both
  cases the target is not touched. Any other input is for the target's own unmarshalling.
\<close>

definition Decode :: "'v Unmarshaler \<Rightarrow> Stream \<Rightarrow> 'v \<Rightarrow> 'v decoded" where
  "Decode unmarshal r v =
     (case dropWhile isSpace (concat (reads r)) of
        [] \<Rightarrow> (case fails r of None \<Rightarrow> Decoded (Some EOF) v | Some err \<Rightarrow> Decoded (Some err) v)
      | c # _ \<Rightarrow>
          if \<not> beginsValue c then Decoded (Some (SyntaxError [c])) v
          else unmarshal r v)"

text \<open>
  The second argument of \<open>do\<close> is an \<open>interface{}\<close>: nil, a value that has a \<open>Write\<close>
  method (the type assertion \<open>v.(io.Writer)\<close> holds), or any other value.
\<close>

datatype ('w, 'v) target =
    Nil
  | Writer "'w Writer" 'w
  | Typed "'v Unmarshaler" 'v

section \<open>The executor\<close>

text \<open>
  What a call of \<open>do\<close> leaves behind: the pair it returns (a nil response is \<open>None\<close>, a
  nil error is \<open>None\<close>) or the panic it exits with, the target as the call left it, how
  often the body of the response was closed, and the lines given to \<open>log.Printf\<close>.
\<close>

datatype returned = Return "Response option" "error option" | Panic

record ('w, 'v) outcome =
  returned :: returned
  v_after :: "('w, 'v) target"
  closed :: nat
  logged :: "string list"

text \<open>\<open>resp.Body.Close()\<close>, counted.\<close>

definition Close :: "nat \<Rightarrow> nat" where
  "Close n = Suc n"

text \<open>
  The statements of \<open>do\<close> after \<open>defer resp.Body.Close()\<close> (client.go, lines 114-137):
  how the function leaves, the target, and the log.
\<close>

definition do_body :: "Response \<Rightarrow> ('w, 'v) target \<Rightarrow> returned \<times> ('w, 'v) target \<times> string list" where
  "do_body resp v =
     (let lg = [''[DEBUG] Received response '' @ resp_Status resp @ '' from '' @ resp_Request_URL resp] in
      if resp_StatusCode resp > 299 \<or> resp_StatusCode resp < 200 then
        (let body = fst (ReadAll (resp_Body resp)) in
         (Return None
            (Some (ReqError \<lparr>StatusCode = resp_StatusCode resp, Status = resp_Status resp,
                             Body = body\<rparr>)),
          v, lg))
      else
        (case v of
           Nil \<Rightarrow> (Return (Some resp) None, v, lg)
         | Writer Write w \<Rightarrow>
             (case Copy Write w (resp_Body resp) of
                CopyPanic w' \<Rightarrow> (Panic, Writer Write w', lg)
              | Copied n err w' \<Rightarrow> (Return (Some resp) None, Writer Write w', lg))
         | Typed unmarshal x \<Rightarrow>
             (case Decode unmarshal (resp_Body resp) x of
                DecodePanic x' \<Rightarrow> (Panic, Typed unmarshal x', lg)
              | Decoded err x' \<Rightarrow>
                  if err \<noteq> None \<and> err \<noteq> Some EOF
                  then (Return None err, Typed unmarshal x', lg)
                  else (Return (Some resp) None, Typed unmarshal x', lg))))"

text \<open>
  \<open>do\<close> (client.go, lines 106-138). \<open>Do\<close> is the round trip of \<open>c.client.Do(req)\<close>: an
  error, or a response. When it gives a response, the deferred \<open>Close\<close> runs as the
  function leaves, whether by a return or by a panic.
\<close>

definition do ::
    "(HttpClient \<Rightarrow> 'r Request \<Rightarrow> error + Response) \<Rightarrow> Client \<Rightarrow> 'r Request
      \<Rightarrow> ('w, 'v) target \<Rightarrow> ('w, 'v) outcome" where
  "do Do c req v =
     (case Do (client c) req of
        Inl err \<Rightarrow> \<lparr>returned = Return None (Some err), v_after = v, closed = 0, logged = []\<rparr>
      | Inr resp \<Rightarrow>
          (case do_body resp v of
             (ret, v', lg) \<Rightarrow> \<lparr>returned = ret, v_after = v', closed = Close 0, logged = lg\<rparr>))"

section \<open>The characters of a value\<close>

text \<open>The characters HTML escaping is about.\<close>

definition html :: "char \<Rightarrow> bool" where
  "html c = (c = CHR ''<'' \<or> c = CHR ''>'' \<or> c = CHR ''&'')"

text \<open>The bytes of all the strings and member names of a value, in the order in which
  the encoder meets them.\<close>

fun text_of :: "jvalue \<Rightarrow> string"
  and text_of_elems :: "jvalue list \<Rightarrow> string"
  and text_of_fields :: "(string \<times> jvalue) list \<Rightarrow> string" where
  "text_of JNull = []"
| "text_of (JBool b) = []"
| "text_of (JInt i) = []"
| "text_of (JString s) = s"
| "text_of (JArray xs) = text_of_elems xs"
| "text_of (JObject fs) = text_of_fields fs"
| "text_of (JUnsupported t) = []"
| "text_of_elems [] = []"
| "text_of_elems (x # xs) = text_of x @ text_of_elems xs"
| "text_of_fields [] = []"
| "text_of_fields ((k, x) # fs) = k @ text_of x @ text_of_fields fs"

section \<open>Example clients, servers, writers and targets\<close>

text \<open>
  An example of the argument \<open>parseRest\<close>, and of the rest that \<open>URL.String\<close> writes: what
  the library does for a text with a scheme, \<open>//\<close>, a host of letters, digits, \<open>.\<close> and
  \<open>-\<close>, an optional colon and port of digits, and a path of slashes, letters, digits,
  \<open>.\<close>, \<open>-\<close>, \<open>_\<close> and \<open>~\<close>, with no query and no fragment. There the host is the text up
  to the first slash, the path is the text from it, nothing is escaped, and \<open>String\<close>
  writes \<open>//\<close>, the host and the path. The example refuses every other text.
\<close>

definition simpleHostByte :: "char \<Rightarrow> bool" where
  "simpleHostByte c = (isAlpha c \<or> isDigit c \<or> c = CHR ''.'' \<or> c = CHR ''-'')"

definition simplePathByte :: "char \<Rightarrow> bool" where
  "simplePathByte c =
     (isAlpha c \<or> isDigit c \<or> c = CHR ''.'' \<or> c = CHR ''-'' \<or> c = CHR ''_'' \<or> c = CHR ''~''
      \<or> c = CHR ''/'')"

definition simpleAuthority :: "string \<Rightarrow> bool" where
  "simpleAuthority a =
     (let h = takeWhile (\<lambda>c. c \<noteq> CHR '':'') a; p = dropWhile (\<lambda>c. c \<noteq> CHR '':'') a
      in h \<noteq> [] \<and> list_all simpleHostByte h \<and> list_all isDigit (drop 1 p))"

definition simpleRest :: "string \<Rightarrow> string \<Rightarrow> string \<Rightarrow> error + string \<times> string" where
  "simpleRest scheme rest frag =
     (let authority = takeWhile (\<lambda>c. c \<noteq> CHR ''/'') (drop 2 rest);
          path = dropWhile (\<lambda>c. c \<noteq> CHR ''/'') (drop 2 rest)
      in if scheme \<noteq> [] \<and> take 2 rest = ''//'' \<and> frag = [] \<and> simpleAuthority authority
            \<and> list_all simplePathByte path
         then Inr (authority, path)
         else Inl (LibError ''net/url: a text beyond the example''))"

definition simpleTail :: "string URL \<Rightarrow> string" where
  "simpleTail u = ''//'' @ Host u @ others u"

definition exampleClient :: Client where
  "exampleClient = NewClient ''http://host:8000'' ''admin'' ''password'' ''pam'' False"

definition exampleRequest :: "string Request" where
  "exampleRequest =
     \<lparr>req_ctx = Context 0, req_Method = ''GET'',
      req_URL = \<lparr>Scheme = ''http'', Host = ''host:8000'', others = ''/minions/id1''\<rparr>,
      req_Header = [''Accept'' \<mapsto> [''application/json''],
                    ''Content-Type'' \<mapsto> [''application/json'']],
      req_Body = None\<rparr>"

text \<open>A round trip that answers every request with the given response, and one that fails.\<close>

definition answer :: "Response \<Rightarrow> HttpClient \<Rightarrow> 'r Request \<Rightarrow> error + Response" where
  "answer resp hc req = Inr resp"

definition refuse :: "HttpClient \<Rightarrow> 'r Request \<Rightarrow> error + Response" where
  "refuse hc req = Inl (LibError ''dial tcp: connection refused'')"

definition response :: "int \<Rightarrow> string \<Rightarrow> string list \<Rightarrow> error option \<Rightarrow> Response" where
  "response code status chunks err =
     \<lparr>resp_StatusCode = code, resp_Status = status,
      resp_Body = \<lparr>reads = chunks, fails = err\<rparr>,
      resp_Request_URL = ''http://host:8000/minions/id1''\<rparr>"

text \<open>The \<open>Write\<close> of a \<open>bytes.Buffer\<close>: it appends the slice and reports all of it written.\<close>

definition bufWrite :: "string Writer" where
  "bufWrite w p = Wrote (int (length p)) None (w @ p)"

text \<open>A writer with room for a number of bytes (a full disk, a fixed buffer): it keeps
  what fits, and reports an error when the slice does not fit.\<close>

definition limitWrite :: "(string \<times> nat) Writer" where
  "limitWrite w p =
     (case w of (kept, room) \<Rightarrow>
        if length p \<le> room then Wrote (int (length p)) None (kept @ p, room - length p)
        else Wrote (int room) (Some (LibError ''no space left on device'')) (kept @ take room p, 0))"

text \<open>A writer that panics on every write.\<close>

definition panicWrite :: "string Writer" where
  "panicWrite w p = WritePanic w"

text \<open>
  An example of a target's unmarshalling, that of an \<open>*int\<close>. A JSON value is complete
  when white space follows it, or the end of a stream that ended with \<open>io.EOF\<close>. A complete
  integer within the range of \<open>int64\<close> is stored, a complete \<open>null\<close> leaves the target as it
  is, and every other input is an error that leaves the target as it is (a syntax error,
  a type error, an unexpected end or a read error: the example does not tell them apart).
\<close>

definition atoi :: "string \<Rightarrow> int" where
  "atoi ds = foldl (\<lambda>a c. 10 * a + (int (of_char c) - 0x30)) 0 ds"

definition followed :: "string \<Rightarrow> Stream \<Rightarrow> bool" where
  "followed rest r = (case rest of [] \<Rightarrow> fails r = None | c # _ \<Rightarrow> isSpace c)"

definition intUnmarshal :: "int Unmarshaler" where
  "intUnmarshal r v =
     (let s = dropWhile isSpace (concat (reads r));
          neg = (take 1 s = ''-'');
          t = (if neg then drop 1 s else s);
          ds = takeWhile isDigit t;
          n = (if neg then - atoi ds else atoi ds)
      in if take 4 s = ''null'' \<and> followed (drop 4 s) r then Decoded None v
         else if ds \<noteq> [] \<and> (length ds = 1 \<or> hd ds \<noteq> CHR ''0'')
                 \<and> followed (dropWhile isDigit t) r
                 \<and> - 9223372036854775808 \<le> n \<and> n \<le> 9223372036854775807
         then Decoded None n
         else Decoded (Some (LibError ''json: cannot decode into Go value of type int'')) v)"

text \<open>A target whose \<open>UnmarshalJSON\<close> panics when the decoder calls it, which it does
  once it has read a complete JSON value; the examples give it such a value, or none.\<close>

definition panicUnmarshal :: "int Unmarshaler" where
  "panicUnmarshal r v = DecodePanic v"

text \<open>A body with all three HTML characters, in a member name and in a string.\<close>

definition exampleBody :: jvalue where
  "exampleBody = JObject [(''a<b'', JArray [JString ''x&y>'', JInt (-120), JNull, JBool True])]"

section \<open>The encoder leaves the HTML characters alone\<close>

lemma hex_mem: "i < 16 \<Longrightarrow> hex i \<in> set ''0123456789abcdef''"
  unfolding hex_def by (rule nth_mem) simp

lemma hex_not_html: "i < 16 \<Longrightarrow> html c \<Longrightarrow> hex i \<noteq> c"
  using hex_mem [of i] by (auto simp: html_def)

lemma escape_byte_no_html:
  assumes "html c" and "\<not> safeSet b" and "(of_char b :: nat) < 0x80"
  shows "count_list (escape_byte b) c = 0"
proof -
  have b: "b \<noteq> c" using assms by (auto simp: html_def safeSet_def)
  have hx: "hex ((of_char b :: nat) div 16) \<noteq> c" "hex ((of_char b :: nat) mod 16) \<noteq> c"
    by (rule hex_not_html [OF _ assms(1)], use assms(3) in simp)+
  have "c \<notin> set (escape_byte b)"
    using assms(1) b hx by (auto simp: escape_byte_def Let_def html_def)
  then show ?thesis by simp
qed

lemma html_safe: "html c \<Longrightarrow> safeSet c \<and> (of_char c :: nat) < 0x80"
  by (auto simp: html_def safeSet_def)

lemma less_small:
  "i < (2::nat) \<longleftrightarrow> i = 0 \<or> i = 1"
  "i < (3::nat) \<longleftrightarrow> i = 0 \<or> i = 1 \<or> i = 2"
  "i < (4::nat) \<longleftrightarrow> i = 0 \<or> i = 1 \<or> i = 2 \<or> i = 3"
  by arith+

lemma rune_bytes_high:
  assumes "s \<noteq> []" and "(0x80 :: nat) \<le> of_char (s ! 0)" and "i < snd (DecodeRuneInString s)"
  shows "(0x80 :: nat) \<le> of_char (s ! i)"
proof (cases "t_as \<le> first_tab (of_char (s ! 0))")
  case True
  with assms show ?thesis
    by (cases s) (simp_all add: DecodeRuneInString_def Let_def)
next
  case False
  then have "first_tab (of_char (s ! 0)) mod 8 = 2 \<or> first_tab (of_char (s ! 0)) mod 8 = 3
      \<or> first_tab (of_char (s ! 0)) mod 8 = 4"
    using first_tab_size [of "of_char (s ! 0)"] by simp
  moreover have lo: "(0x80 :: nat) \<le> fst (acceptRanges k)" for k
    by (simp add: acceptRanges_def locb_def)
  ultimately show ?thesis
  proof (elim disjE)
    assume "first_tab (of_char (s ! 0)) mod 8 = 2"
    with assms False lo [of "first_tab (of_char (s ! 0)) div 16"] show ?thesis
      by (cases s) (auto simp add: DecodeRuneInString_def Let_def less_small less_Suc_eq locb_def split: prod.splits if_splits)
  next
    assume "first_tab (of_char (s ! 0)) mod 8 = 3"
    with assms False lo [of "first_tab (of_char (s ! 0)) div 16"] show ?thesis
      by (cases s) (auto simp add: DecodeRuneInString_def Let_def less_small less_Suc_eq locb_def split: prod.splits if_splits)
  next
    assume "first_tab (of_char (s ! 0)) mod 8 = 4"
    with assms False lo [of "first_tab (of_char (s ! 0)) div 16"] show ?thesis
      by (cases s) (auto simp add: DecodeRuneInString_def Let_def less_small less_Suc_eq locb_def split: prod.splits if_splits)
  qed
qed


lemma rune_taken_no_html:
  assumes "html c" and "(0x80 :: nat) \<le> of_char b"
  shows "count_list (take (snd (DecodeRuneInString (take UTFMax (b # src)))) (b # src)) c = 0"
proof -
  let ?s = "take UTFMax (b # src)"
  let ?sz = "snd (DecodeRuneInString ?s)"
  have ne: "?s \<noteq> []" by (simp add: UTFMax_def)
  have sz: "?sz \<le> length ?s" using DecodeRuneInString_size [OF ne] by simp
  have "c \<notin> set (take ?sz (b # src))"
  proof
    assume "c \<in> set (take ?sz (b # src))"
    then obtain i where i: "i < length (take ?sz (b # src))" "take ?sz (b # src) ! i = c"
      by (auto simp: in_set_conv_nth)
    then have isz: "i < ?sz" by simp
    with sz have "i < length ?s" by simp
    then have "?s ! i = (b # src) ! i" by simp
    moreover have "(0x80 :: nat) \<le> of_char (?s ! i)"
      using rune_bytes_high [OF ne _ isz] assms(2) by (simp add: UTFMax_def)
    ultimately have "(0x80 :: nat) \<le> of_char c" using i isz by simp
    with html_safe [OF assms(1)] show False by simp
  qed
  then show ?thesis by simp
qed

lemma appendString_loop_html:
  "\<not> e \<Longrightarrow> html c \<Longrightarrow> count_list (appendString_loop e s) c = count_list s c"
proof (induction e s rule: appendString_loop.induct)
  case (1 escapeHTML)
  then show ?case by simp
next
  case (2 escapeHTML b src)
  let ?sz = "snd (DecodeRuneInString (take UTFMax (b # src)))"
  let ?c0 = "fst (DecodeRuneInString (take UTFMax (b # src)))"
  show ?case
  proof (cases "(of_char b :: nat) < RuneSelf")
    case True
    show ?thesis
    proof (cases "safeSet b")
      case safe: True
      with True 2 show ?thesis by (simp add: htmlSafeSet_def)
    next
      case False
      then have "b \<noteq> c" using html_safe [OF \<open>html c\<close>] by auto
      moreover have "count_list (escape_byte b) c = 0"
        using escape_byte_no_html [OF \<open>html c\<close> False] True by (simp add: RuneSelf_def)
      ultimately show ?thesis using True False 2 by (simp add: htmlSafeSet_def)
    qed
  next
    case False
    then have hi: "(0x80 :: nat) \<le> of_char b" by (simp add: RuneSelf_def)
    have split: "count_list (b # src) c
        = count_list (take ?sz (b # src)) c + count_list (drop ?sz (b # src)) c"
      by (metis append_take_drop_id count_list_append)
    have taken: "count_list (take ?sz (b # src)) c = 0"
      by (rule rune_taken_no_html [OF \<open>html c\<close> hi])
    have hx: "hex (?c0 mod 16) \<noteq> c"
      by (rule hex_not_html [OF _ \<open>html c\<close>]) simp
    have cs: "c \<noteq> CHR 0x5C" "c \<noteq> CHR ''u''" "c \<noteq> CHR ''f''" "c \<noteq> CHR ''d''" "c \<noteq> CHR ''2''" "c \<noteq> CHR ''0''"
      using \<open>html c\<close> by (auto simp: html_def)
    have ih: "count_list (appendString_loop escapeHTML (drop ?sz (b # src))) c
        = count_list (drop ?sz (b # src)) c"
    proof (cases "?c0 = RuneError \<and> ?sz = 1")
      case True
      from "2.IH"(3) [OF False refl refl True "2.prems"] show ?thesis .
    next
      case nr: False
      show ?thesis
      proof (cases "?c0 = 0x2028 \<or> ?c0 = 0x2029")
        case True
        from "2.IH"(4) [OF False refl refl nr True "2.prems"] show ?thesis .
      next
        case ns: False
        from "2.IH"(5) [OF False refl refl nr ns "2.prems"] show ?thesis .
      qed
    qed
    show ?thesis
      using False ih split taken hx cs
      by (simp add: Let_def del: drop_Suc_Cons take_Suc_Cons count_list.simps)
         (auto simp del: drop_Suc_Cons take_Suc_Cons)
  qed
qed


lemma digits_no_html: "html c \<Longrightarrow> count_list (digits n) c = 0"
proof (induction n rule: digits.induct)
  case (1 n)
  have a: "hex n \<noteq> c" if "n < 10"
    by (rule hex_not_html [OF _ \<open>html c\<close>]) (use that in simp)
  have b: "hex (n mod 10) \<noteq> c"
    by (rule hex_not_html [OF _ \<open>html c\<close>]) simp
  show ?case
  proof (cases "n < 10")
    case True
    with a show ?thesis by (subst digits.simps) simp
  next
    case False
    with 1 b show ?thesis by (subst digits.simps) simp
  qed
qed

lemma AppendInt_no_html: "html c \<Longrightarrow> count_list (AppendInt i) c = 0"
  by (auto simp: AppendInt_def digits_no_html html_def)

lemma appendString_html: "html c \<Longrightarrow> count_list (appendString False s) c = count_list s c"
  by (auto simp: appendString_def appendString_loop_html html_def)

lemma marshal_html:
  "html c \<Longrightarrow> marshal False v = Inr js \<Longrightarrow> count_list js c = count_list (text_of v) c"
  "html c \<Longrightarrow> arrayEncoder False xs = Inr js \<Longrightarrow> count_list js c = count_list (text_of_elems xs) c"
  "html c \<Longrightarrow> structEncoder False fs = Inr js \<Longrightarrow> count_list js c = count_list (text_of_fields fs) c"
proof (induction v and xs and fs arbitrary: js and js and js rule: text_of_text_of_elems_text_of_fields.induct)
  case 1
  then show ?case by (auto simp: html_def)
next
  case (2 b)
  then show ?case by (auto simp: html_def)
next
  case (3 i)
  then show ?case by (auto simp: AppendInt_no_html)
next
  case (4 s)
  then show ?case by (auto simp: appendString_html)
next
  case (5 xs)
  then show ?case by (auto simp: html_def split: sum.splits)
next
  case (6 fs)
  then show ?case by (auto simp: html_def split: sum.splits)
next
  case (7 t)
  then show ?case by simp
next
  case 8
  then show ?case by simp
next
  case (9 x xs)
  then show ?case by (auto simp: html_def split: sum.splits if_splits)
next
  case 10
  then show ?case by simp
next
  case (11 k x fs)
  have "count_list '':'' c = 0" "count_list '','' c = 0"
    using \<open>html c\<close> by (auto simp: html_def)
  with 11 show ?case by (auto simp: appendString_html split: sum.splits if_splits)
qed

section \<open>The request builder\<close>

lemma canonical_keys:
  "CanonicalMIMEHeaderKey ''Accept'' = ''Accept''"
  "CanonicalMIMEHeaderKey ''Content-Type'' = ''Content-Type''"
  "CanonicalMIMEHeaderKey ''X-Auth-Token'' = ''X-Auth-Token''"
  by (simp_all add: CanonicalMIMEHeaderKey_def isTokenTable_def toLower_def Let_def)

text \<open>Every request that \<open>newRequest\<close> returns, field by field.\<close>

lemma newRequest_built:
  assumes "newRequest parseRest c ctx method endpoint body = (lg, Inr req)"
  shows "\<exists>u. Parse parseRest (Address c @ ''/'' @ endpoint) = Inr u
           \<and> req_URL req = u\<lparr>Host := removeEmptyPort (Host u)\<rparr>"
    and "req_Header req =
           (if Token c \<noteq> []
            then [''Accept'' \<mapsto> [''application/json''], ''Content-Type'' \<mapsto> [''application/json''],
                  ''X-Auth-Token'' \<mapsto> [Token c]]
            else [''Accept'' \<mapsto> [''application/json''], ''Content-Type'' \<mapsto> [''application/json'']])"
    and "case body of
           None \<Rightarrow> req_Body req = None
         | Some b \<Rightarrow> Encode False b = Inr (the (req_Body req)) \<and> req_Body req \<noteq> None"
    and "lg = [''[DEBUG] Creating request for '' @ Address c @ ''/'' @ endpoint]"
  using assms
  by (auto simp: newRequest_def NewRequestWithContext_def Header_Set_def canonical_keys Let_def
      split: option.splits sum.splits if_splits)

text \<open>The facts that evaluate the URL functions on a text.\<close>

lemmas url_defs =
  Parse_def stringContainsCTLByte_def isCTL_def getScheme_def isAlpha_def isDigit_def
  ToLower_def simpleRest_def simpleAuthority_def simpleHostByte_def simplePathByte_def
  removeEmptyPort_def hasPort_def LastIndex_def TrimSuffix_colon_def char_of_eq_iff

lemmas request_defs =
  newRequest_def NewRequestWithContext_def exampleClient_def NewClient_def validMethod_def
  isTokenTable_def Header_Set_def canonical_keys

text \<open>The scenario of the specification: a GET of \<open>minions/id1\<close>, with any token.\<close>

lemma example_built:
  "\<exists>lg req. newRequest simpleRest (exampleClient\<lparr>Token := tok\<rparr>) (Some (Context 0))
      ''GET'' ''minions/id1'' None = (lg, Inr req)"
  by (simp add: request_defs url_defs Let_def)

text \<open>A base address that ends in a slash and a path that begins with one: \<open>newRequest\<close>
  removes no slash, the parsed path has all three, and here the text of the URL of the
  request is the text that was handed in.\<close>

lemma example_slashes:
  "newRequest simpleRest (exampleClient\<lparr>Address := ''http://host:8000/''\<rparr>) (Some (Context 0))
      ''GET'' ''/minions//id1'' None
   = ([''[DEBUG] Creating request for http://host:8000///minions//id1''],
      Inr \<lparr>req_ctx = Context 0, req_Method = ''GET'',
        req_URL = \<lparr>Scheme = ''http'', Host = ''host:8000'', others = ''///minions//id1''\<rparr>,
        req_Header = [''Accept'' \<mapsto> [''application/json''],
                      ''Content-Type'' \<mapsto> [''application/json'']],
        req_Body = None\<rparr>)"
  "URL_String simpleTail \<lparr>Scheme = ''http'', Host = ''host:8000'', others = ''///minions//id1''\<rparr>
   = ''http://host:8000///minions//id1''"
  by (simp_all add: request_defs url_defs URL_String_def simpleTail_def Let_def)

text \<open>A base address with an empty port: the host of the request has lost the colon, and
  the text of its URL is not the text that was parsed.\<close>

lemma example_empty_port:
  "newRequest simpleRest (exampleClient\<lparr>Address := ''http://host:''\<rparr>) (Some (Context 0))
      ''GET'' ''minions/id1'' None
   = ([''[DEBUG] Creating request for http://host:/minions/id1''],
      Inr \<lparr>req_ctx = Context 0, req_Method = ''GET'',
        req_URL = \<lparr>Scheme = ''http'', Host = ''host'', others = ''/minions/id1''\<rparr>,
        req_Header = [''Accept'' \<mapsto> [''application/json''],
                      ''Content-Type'' \<mapsto> [''application/json'']],
        req_Body = None\<rparr>)"
  "URL_String simpleTail \<lparr>Scheme = ''http'', Host = ''host'', others = ''/minions/id1''\<rparr>
   = ''http://host/minions/id1''"
  by (simp_all add: request_defs url_defs URL_String_def simpleTail_def Let_def)

text \<open>A scheme in upper case is in lower case in the URL of the request, whatever the
  library does with the rest of the text and whatever \<open>String\<close> writes after the scheme.\<close>

lemma upper_case_scheme_lowered:
  assumes "newRequest parseRest (c\<lparr>Address := ''HTTP://host:8000''\<rparr>) ctx method ''minions/id1'' body
             = (lg, Inr req)"
  shows "Scheme (req_URL req) = ''http''"
    and "URL_String tail (req_URL req) \<noteq> ''HTTP://host:8000/minions/id1''"
proof -
  obtain u where u: "Parse parseRest ''HTTP://host:8000/minions/id1'' = Inr u"
      and r: "req_URL req = u\<lparr>Host := removeEmptyPort (Host u)\<rparr>"
    using newRequest_built(1) [OF assms] by auto
  have "getScheme ''HTTP://host:8000/minions/id1'' = Inr (''HTTP'', ''//host:8000/minions/id1'')"
    by (simp add: getScheme_def isAlpha_def isDigit_def)
  with u have "Scheme u = ''http''"
    by (auto simp: Parse_def stringContainsCTLByte_def isCTL_def ToLower_def char_of_eq_iff
        Let_def split: sum.splits)
  with r show "Scheme (req_URL req) = ''http''" by simp
  then show "URL_String tail (req_URL req) \<noteq> ''HTTP://host:8000/minions/id1''"
    by (simp add: URL_String_def)
qed

text \<open>A POST of the example body, evaluated: the payload is the JSON text with the three
  HTML characters as they are, and a newline.\<close>

lemma example_payload:
  "newRequest simpleRest exampleClient (Some (Context 0)) ''POST'' ''run'' (Some exampleBody)
   = ([''[DEBUG] Creating request for http://host:8000/run''],
      Inr \<lparr>req_ctx = Context 0, req_Method = ''POST'',
        req_URL = \<lparr>Scheme = ''http'', Host = ''host:8000'', others = ''/run''\<rparr>,
        req_Header = [''Accept'' \<mapsto> [''application/json''],
                      ''Content-Type'' \<mapsto> [''application/json'']],
        req_Body = Some (''{'' @ [CHR 0x22] @ ''a<b'' @ [CHR 0x22] @ '':['' @ [CHR 0x22] @ ''x&y>''
                          @ [CHR 0x22] @ '',-120,null,true]}'' @ [CHR 0x0A])\<rparr>)"
  by (simp add: request_defs url_defs Let_def exampleBody_def Encode_def
      appendString_def htmlSafeSet_def safeSet_def RuneSelf_def AppendInt_def digits.simps hex_def)

text \<open>
  C2. In every request that \<open>newRequest\<close> builds, the header \<open>X-Auth-Token\<close> is present
  if and only if the client's token is not empty; when present its value is the token;
  and with an empty token the request carries the two fixed headers and no other.
\<close>

theorem C2_auth_header:
  assumes "newRequest parseRest c ctx method endpoint body = (lg, Inr req)"
  shows "(req_Header req ''X-Auth-Token'' \<noteq> None \<longleftrightarrow> Token c \<noteq> [])
       \<and> (Token c \<noteq> [] \<longrightarrow> req_Header req ''X-Auth-Token'' = Some [Token c])
       \<and> (Token c = [] \<longrightarrow> dom (req_Header req) = {''Accept'', ''Content-Type''})"
  using newRequest_built(2) [OF assms] by auto

theorem C2_auth_header_witness:
  "\<exists>lg req. newRequest simpleRest (exampleClient\<lparr>Token := ''abc123''\<rparr>) (Some (Context 0))
        ''GET'' ''minions/id1'' None = (lg, Inr req)
     \<and> req_Header req ''X-Auth-Token'' = Some [''abc123'']"
proof -
  obtain lg req where b: "newRequest simpleRest (exampleClient\<lparr>Token := ''abc123''\<rparr>)
      (Some (Context 0)) ''GET'' ''minions/id1'' None = (lg, Inr req)"
    using example_built by blast
  have "Token (exampleClient\<lparr>Token := ''abc123''\<rparr>) \<noteq> []" by simp
  with C2_auth_header [OF b] have "req_Header req ''X-Auth-Token'' = Some [''abc123'']" by simp
  with b show ?thesis by blast
qed

text \<open>
  C3, as the code has it. For every base address and every endpoint path, the text that
  \<open>newRequest\<close> logs and hands to the library is the base address, one slash, and the
  endpoint path, with no slash removed and nothing else rewritten by \<open>newRequest\<close>; the
  URL of the built request is what \<open>url.Parse\<close> makes of that text, with an empty port
  removed from the host. The claim as stated, that the URL of the request equals the text,
  fails on a base address with a scheme in upper case: the URL of the request has the
  scheme in lower case.
\<close>

theorem C3_request_url:
  assumes "newRequest parseRest c ctx method endpoint body = (lg, Inr req)"
  shows "lg = [''[DEBUG] Creating request for '' @ Address c @ ''/'' @ endpoint]
       \<and> (\<exists>u. Parse parseRest (Address c @ ''/'' @ endpoint) = Inr u
             \<and> req_URL req = u\<lparr>Host := removeEmptyPort (Host u)\<rparr>)"
  using newRequest_built(1,4) [OF assms] by simp

theorem C3_request_url_witness:
  "\<exists>lg req u.
      newRequest simpleRest (exampleClient\<lparr>Address := ''http://host:8000/''\<rparr>) (Some (Context 0))
        ''GET'' ''/minions//id1'' None = (lg, Inr req)
      \<and> lg = [''[DEBUG] Creating request for http://host:8000///minions//id1'']
      \<and> Parse simpleRest ''http://host:8000///minions//id1'' = Inr u
      \<and> req_URL req = u\<lparr>Host := removeEmptyPort (Host u)\<rparr>
      \<and> others (req_URL req) = ''///minions//id1''
      \<and> URL_String simpleTail (req_URL req) = ''http://host:8000///minions//id1''"
  using C3_request_url [OF example_slashes(1)] example_slashes by auto

theorem C3_counterexample:
  "newRequest simpleRest (exampleClient\<lparr>Address := ''HTTP://host:8000''\<rparr>) (Some (Context 0))
      ''GET'' ''minions/id1'' None
   = ([''[DEBUG] Creating request for HTTP://host:8000/minions/id1''],
      Inr \<lparr>req_ctx = Context 0, req_Method = ''GET'',
        req_URL = \<lparr>Scheme = ''http'', Host = ''host:8000'', others = ''/minions/id1''\<rparr>,
        req_Header = [''Accept'' \<mapsto> [''application/json''],
                      ''Content-Type'' \<mapsto> [''application/json'']],
        req_Body = None\<rparr>)
   \<and> URL_String simpleTail \<lparr>Scheme = ''http'', Host = ''host:8000'', others = ''/minions/id1''\<rparr>
       = ''http://host:8000/minions/id1''
   \<and> Address (exampleClient\<lparr>Address := ''HTTP://host:8000''\<rparr>) @ ''/'' @ ''minions/id1''
       = ''HTTP://host:8000/minions/id1''"
  by (simp add: request_defs url_defs URL_String_def simpleTail_def Let_def)

text \<open>
  C4. For every body that is not nil, each of the characters \<open><\<close>, \<open>>\<close> and \<open>&\<close> stands
  in the payload of the built request as a literal byte exactly as often as it occurs in
  the strings and member names of the body: none of them is replaced by an escape sequence.
\<close>

theorem C4_html_literal:
  assumes "newRequest parseRest c ctx method endpoint (Some b) = (lg, Inr req)"
    and "ch = CHR ''<'' \<or> ch = CHR ''>'' \<or> ch = CHR ''&''"
  shows "\<exists>payload. req_Body req = Some payload
           \<and> count_list payload ch = count_list (text_of b) ch"
proof -
  from assms(2) have h: "html ch" by (simp add: html_def)
  obtain js where js: "marshal False b = Inr js" "req_Body req = Some (js @ [CHR 0x0A])"
    using newRequest_built(3) [OF assms(1)] by (auto simp: Encode_def split: sum.splits)
  have "count_list (js @ [CHR 0x0A]) ch = count_list (text_of b) ch"
    using marshal_html(1) [OF h js(1)] assms(2) by auto
  with js show ?thesis by blast
qed

theorem C4_html_literal_witness:
  "\<exists>lg req payload.
      newRequest simpleRest exampleClient (Some (Context 0)) ''POST'' ''run'' (Some exampleBody)
        = (lg, Inr req)
      \<and> req_Body req = Some payload \<and> count_list payload CHR ''<'' = 1"
proof -
  have t: "count_list (text_of exampleBody) CHR ''<'' = 1"
    by (simp add: exampleBody_def)
  from C4_html_literal [OF example_payload, of "CHR ''<''"] t show ?thesis
    using example_payload by auto
qed

text \<open>
  C9. For every body that is not nil, the payload of the built request is the JSON text
  of the body followed by one newline character.
\<close>

theorem C9_trailing_newline:
  assumes "newRequest parseRest c ctx method endpoint (Some b) = (lg, Inr req)"
  shows "\<exists>js. marshal False b = Inr js \<and> req_Body req = Some (js @ [CHR 0x0A])"
  using newRequest_built(3) [OF assms]
  by (auto simp: Encode_def split: sum.splits)

theorem C9_trailing_newline_witness:
  "\<exists>lg req js.
      newRequest simpleRest exampleClient (Some (Context 0)) ''POST'' ''run'' (Some exampleBody)
        = (lg, Inr req)
      \<and> marshal False exampleBody = Inr js \<and> req_Body req = Some (js @ [CHR 0x0A])"
  using C9_trailing_newline [OF example_payload] example_payload by blast

section \<open>The executor: facts\<close>

lemma copyBuffer_accepting:
  assumes W: "\<And>w p. Write w p = Wrote (int (length p)) None (put w p)"
    and C: "\<And>w p. contents (put w p) = contents w @ p"
  shows "\<exists>w'. copyBuffer Write w chunks er n = Copied (n + int (length (concat chunks))) er w'
           \<and> contents w' = contents w @ concat chunks"
proof (induction chunks arbitrary: w n)
  case Nil
  then show ?case by simp
next
  case (Cons buf rest)
  show ?case
  proof (cases "buf = []")
    case True
    with Cons [of w n] show ?thesis by simp
  next
    case False
    from Cons [of "put w buf" "n + int (length buf)"] False show ?thesis
      by (auto simp: W C Let_def)
  qed
qed

lemma do_response:
  assumes "Do (client c) req = Inr resp"
  shows "do Do c req v =
           \<lparr>returned = fst (do_body resp v), v_after = fst (snd (do_body resp v)),
            closed = 1, logged = snd (snd (do_body resp v))\<rparr>"
  using assms by (simp add: do_def Close_def split: prod.splits)

lemma do_transport_error:
  assumes "Do (client c) req = Inl err"
  shows "do Do c req v = \<lparr>returned = Return None (Some err), v_after = v, closed = 0, logged = []\<rparr>"
  using assms by (simp add: do_def)

lemma do_body_failure:
  assumes "resp_StatusCode resp < 200 \<or> 299 < resp_StatusCode resp"
  shows "do_body resp v =
           (Return None (Some (ReqError \<lparr>StatusCode = resp_StatusCode resp, Status = resp_Status resp,
                                        Body = concat (reads (resp_Body resp))\<rparr>)),
            v,
            [''[DEBUG] Received response '' @ resp_Status resp @ '' from '' @ resp_Request_URL resp])"
  using assms by (auto simp: do_body_def ReadAll_def Let_def)

lemma do_body_success:
  assumes "200 \<le> resp_StatusCode resp" and "resp_StatusCode resp \<le> 299"
  shows "fst (do_body resp v) =
           (case v of
              Nil \<Rightarrow> Return (Some resp) None
            | Writer Write w \<Rightarrow>
                (case Copy Write w (resp_Body resp) of
                   CopyPanic w' \<Rightarrow> Panic
                 | Copied n err w' \<Rightarrow> Return (Some resp) None)
            | Typed unmarshal x \<Rightarrow>
                (case Decode unmarshal (resp_Body resp) x of
                   DecodePanic x' \<Rightarrow> Panic
                 | Decoded err x' \<Rightarrow>
                     if err \<noteq> None \<and> err \<noteq> Some EOF then Return None err
                     else Return (Some resp) None))"
    and "fst (snd (do_body resp v)) =
           (case v of
              Nil \<Rightarrow> Nil
            | Writer Write w \<Rightarrow>
                (case Copy Write w (resp_Body resp) of
                   CopyPanic w' \<Rightarrow> Writer Write w'
                 | Copied n err w' \<Rightarrow> Writer Write w')
            | Typed unmarshal x \<Rightarrow>
                (case Decode unmarshal (resp_Body resp) x of
                   DecodePanic x' \<Rightarrow> Typed unmarshal x'
                 | Decoded err x' \<Rightarrow> Typed unmarshal x'))"
  using assms
  by (auto simp: do_body_def Let_def split: target.splits copied.splits decoded.splits)

text \<open>The scenarios of the specification: a body that is decoded into the target, and a
  round trip that fails.\<close>

lemma example_decoded:
  "do (answer (response 200 ''200 OK'' [''3''] None)) exampleClient exampleRequest
       (Typed intUnmarshal 0 :: (unit, int) target)
   = \<lparr>returned = Return (Some (response 200 ''200 OK'' [''3''] None)) None,
      v_after = Typed intUnmarshal 3, closed = 1,
      logged = [''[DEBUG] Received response 200 OK from http://host:8000/minions/id1'']\<rparr>"
  by (simp add: do_def do_body_def answer_def response_def Decode_def isSpace_def
      beginsValue_def Close_def intUnmarshal_def isDigit_def atoi_def followed_def Let_def)

lemma example_refused:
  "do refuse exampleClient exampleRequest (Typed intUnmarshal 0 :: (unit, int) target)
   = \<lparr>returned = Return None (Some (LibError ''dial tcp: connection refused'')),
      v_after = Typed intUnmarshal 0, closed = 0, logged = []\<rparr>"
  by (simp add: do_transport_error refuse_def)

lemma decode_error_returned:
  assumes "Do (client c) req = Inr resp"
    and "200 \<le> resp_StatusCode resp" and "resp_StatusCode resp \<le> 299"
    and "Decode unmarshal (resp_Body resp) x = Decoded (Some err) x'" and "err \<noteq> EOF"
  shows "returned (do Do c req (Typed unmarshal x)) = Return None (Some err)"
  using assms(2-5) by (simp add: do_response [of Do c req resp, OF assms(1)] do_body_success)

text \<open>
  C1, as the code has it. For every call that receives a response: when the status code
  is outside 200..299, \<open>do\<close> returns a nil response and a \<open>RequestError\<close> with the
  status code and status text of the response and, as body, the bytes read before the
  stream ended, whether it ended by \<open>io.EOF\<close> or by a read error; the target is left as
  it was, whatever its decoding would do. When the status code is in 200..299, \<open>do\<close>
  returns no error if there is no target, if the body was copied into a byte sink without
  error, or if decoding into a typed target gave no error or \<open>io.EOF\<close>; any other decode
  error is returned. The claim as stated, no error for every 2xx response, fails on a 200
  response whose body is not JSON.
\<close>

theorem C1_status_classification:
  assumes "Do (client c) req = Inr resp"
  shows "(resp_StatusCode resp < 200 \<or> 299 < resp_StatusCode resp \<longrightarrow>
            returned (do Do c req v) =
              Return None (Some (ReqError \<lparr>StatusCode = resp_StatusCode resp,
                                           Status = resp_Status resp,
                                           Body = concat (reads (resp_Body resp))\<rparr>))
            \<and> v_after (do Do c req v) = v)
       \<and> (200 \<le> resp_StatusCode resp \<and> resp_StatusCode resp \<le> 299 \<longrightarrow>
            (case v of
               Nil \<Rightarrow> returned (do Do c req v) = Return (Some resp) None
             | Writer Write w \<Rightarrow>
                 (\<forall>n w'. Copy Write w (resp_Body resp) = Copied n None w' \<longrightarrow>
                    returned (do Do c req v) = Return (Some resp) None)
             | Typed unmarshal x \<Rightarrow>
                 (\<forall>err x'. Decode unmarshal (resp_Body resp) x = Decoded err x' \<longrightarrow>
                    returned (do Do c req v) =
                      (if err = None \<or> err = Some EOF then Return (Some resp) None
                       else Return None err))))"
proof (intro conjI impI)
  assume "resp_StatusCode resp < 200 \<or> 299 < resp_StatusCode resp"
  then show "returned (do Do c req v) =
      Return None (Some (ReqError \<lparr>StatusCode = resp_StatusCode resp, Status = resp_Status resp,
                                   Body = concat (reads (resp_Body resp))\<rparr>))"
    and "v_after (do Do c req v) = v"
    by (simp_all add: do_response [of Do c req resp, OF assms] do_body_failure)
next
  assume "200 \<le> resp_StatusCode resp \<and> resp_StatusCode resp \<le> 299"
  then show "case v of
      Nil \<Rightarrow> returned (do Do c req v) = Return (Some resp) None
    | Writer Write w \<Rightarrow>
        (\<forall>n w'. Copy Write w (resp_Body resp) = Copied n None w' \<longrightarrow>
           returned (do Do c req v) = Return (Some resp) None)
    | Typed unmarshal x \<Rightarrow>
        (\<forall>err x'. Decode unmarshal (resp_Body resp) x = Decoded err x' \<longrightarrow>
           returned (do Do c req v) =
             (if err = None \<or> err = Some EOF then Return (Some resp) None
              else Return None err))"
    by (cases v) (auto simp: do_response [of Do c req resp, OF assms] do_body_success)
qed

theorem C1_status_classification_witness:
  "returned (do (answer (response 500 ''500 Internal Server Error'' [''bo'', ''om'']
                           (Some ErrUnexpectedEOF)))
               exampleClient exampleRequest (Typed intUnmarshal 7 :: (unit, int) target))
     = Return None (Some (ReqError \<lparr>StatusCode = 500, Status = ''500 Internal Server Error'',
                                    Body = ''boom''\<rparr>))
   \<and> v_after (do (answer (response 500 ''500 Internal Server Error'' [''bo'', ''om'']
                           (Some ErrUnexpectedEOF)))
               exampleClient exampleRequest (Typed intUnmarshal 7 :: (unit, int) target))
     = Typed intUnmarshal 7"
  using C1_status_classification
    [of "answer (response 500 ''500 Internal Server Error'' [''bo'', ''om'']
                   (Some ErrUnexpectedEOF))"
        exampleClient exampleRequest
        "response 500 ''500 Internal Server Error'' [''bo'', ''om''] (Some ErrUnexpectedEOF)"
        "Typed intUnmarshal 7 :: (unit, int) target"]
  by (simp add: answer_def response_def)

theorem C1_counterexample:
  "resp_StatusCode (response 200 ''200 OK'' [''x''] None) = 200
   \<and> returned (do (answer (response 200 ''200 OK'' [''x''] None)) exampleClient exampleRequest
                 (Typed intUnmarshal 7 :: (unit, int) target))
       = Return None (Some (SyntaxError ''x''))"
  by (simp add: do_def do_body_def answer_def response_def Decode_def isSpace_def
      beginsValue_def Close_def)

text \<open>
  C5. For every response with a status code in 200..299 whose body ends at once, and every
  typed target, \<open>do\<close> returns the response and no error, and the target is as it was. The
  witness takes a target whose unmarshalling would panic: it is never reached.
\<close>

theorem C5_empty_body:
  assumes "Do (client c) req = Inr resp"
    and "200 \<le> resp_StatusCode resp" and "resp_StatusCode resp \<le> 299"
    and "concat (reads (resp_Body resp)) = []" and "fails (resp_Body resp) = None"
  shows "returned (do Do c req (Typed unmarshal x)) = Return (Some resp) None
       \<and> v_after (do Do c req (Typed unmarshal x)) = Typed unmarshal x"
proof -
  have "Decode unmarshal (resp_Body resp) x = Decoded (Some EOF) x"
    unfolding Decode_def assms(4) assms(5) by simp
  then show ?thesis
    by (simp add: do_response [of Do c req resp, OF assms(1)] do_body_success [OF assms(2,3)])
qed

theorem C5_empty_body_witness:
  "returned (do (answer (response 204 ''204 No Content'' [] None)) exampleClient exampleRequest
              (Typed panicUnmarshal 7 :: (unit, int) target))
     = Return (Some (response 204 ''204 No Content'' [] None)) None
   \<and> v_after (do (answer (response 204 ''204 No Content'' [] None)) exampleClient exampleRequest
              (Typed panicUnmarshal 7 :: (unit, int) target))
     = Typed panicUnmarshal 7"
  using C5_empty_body
    [of "answer (response 204 ''204 No Content'' [] None)" exampleClient exampleRequest
        "response 204 ''204 No Content'' [] None" panicUnmarshal 7]
  by (simp add: answer_def response_def)

text \<open>
  C6, as the code has it. For every response with a status code in 200..299 and every byte
  sink whose \<open>Write\<close> takes each slice in full, the sink receives exactly the bytes read
  from the response body, in order and unparsed: its contents after the call are its
  contents before, followed by those bytes. The claim as stated, for every sink, fails on
  a sink that has room for four bytes of a five-byte body.
\<close>

theorem C6_sink_receives_body:
  assumes "Do (client c) req = Inr resp"
    and "200 \<le> resp_StatusCode resp" and "resp_StatusCode resp \<le> 299"
    and W: "\<And>w p. Write w p = Wrote (int (length p)) None (put w p)"
    and C: "\<And>w p. contents (put w p) = contents w @ p"
  shows "\<exists>w'. v_after (do Do c req (Writer Write w)) = Writer Write w'
           \<and> contents w' = contents w @ concat (reads (resp_Body resp))"
proof -
  obtain w' where "Copy Write w (resp_Body resp)
        = Copied (0 + int (length (concat (reads (resp_Body resp))))) (fails (resp_Body resp)) w'"
      and "contents w' = contents w @ concat (reads (resp_Body resp))"
    unfolding Copy_def using copyBuffer_accepting [of Write put contents, OF W C] by blast
  then show ?thesis
    using assms(2,3) by (simp add: do_response [of Do c req resp, OF assms(1)] do_body_success)
qed

theorem C6_sink_receives_body_witness:
  "v_after (do (answer (response 200 ''200 OK'' [''hel'', ''lo''] None)) exampleClient
              exampleRequest (Writer bufWrite [] :: (string, unit) target))
     = Writer bufWrite ''hello''"
proof -
  have "\<exists>w'. v_after (do (answer (response 200 ''200 OK'' [''hel'', ''lo''] None)) exampleClient
              exampleRequest (Writer bufWrite [] :: (string, unit) target)) = Writer bufWrite w'
           \<and> id w' = id [] @ concat (reads (resp_Body (response 200 ''200 OK'' [''hel'', ''lo''] None)))"
    by (rule C6_sink_receives_body [where put = "(@)"])
       (simp_all add: answer_def response_def bufWrite_def)
  then show ?thesis by (auto simp: response_def)
qed

theorem C6_counterexample:
  "resp_StatusCode (response 200 ''200 OK'' [''hel'', ''lo''] None) = 200
   \<and> concat (reads (resp_Body (response 200 ''200 OK'' [''hel'', ''lo''] None))) = ''hello''
   \<and> v_after (do (answer (response 200 ''200 OK'' [''hel'', ''lo''] None)) exampleClient
                exampleRequest (Writer limitWrite ([], 4) :: (string \<times> nat, unit) target))
       = Writer limitWrite (''hell'', 0)"
  by (simp add: do_def do_body_def answer_def response_def Copy_def limitWrite_def Close_def)

text \<open>
  C7. The claim says that an error of writing the body into a byte sink reaches the
  caller. Evaluated on a 200 response with the body \<open>hello\<close> and a sink with room for two
  bytes: \<open>io.Copy\<close> ends with the sink's error, and \<open>do\<close> returns the response and a nil
  error. (A decode error other than \<open>io.EOF\<close> is returned: \<open>decode_error_returned\<close>.)
\<close>

theorem C7_write_error_swallowed:
  "Copy limitWrite ([], 2) (resp_Body (response 200 ''200 OK'' [''hello''] None))
     = Copied 2 (Some (LibError ''no space left on device'')) (''he'', 0)
   \<and> returned (do (answer (response 200 ''200 OK'' [''hello''] None)) exampleClient
                exampleRequest (Writer limitWrite ([], 2) :: (string \<times> nat, unit) target))
       = Return (Some (response 200 ''200 OK'' [''hello''] None)) None"
  by (simp add: do_def do_body_def answer_def response_def Copy_def limitWrite_def Close_def)

text \<open>
  C8. For every call that receives a response, the body of the response has been closed,
  once, when \<open>do\<close> is left: by the return of the response, of a \<open>RequestError\<close> or of a
  decode error, or by a panic. The witness is a call left by a panic of the target.
\<close>

theorem C8_body_closed:
  assumes "Do (client c) req = Inr resp"
  shows "closed (do Do c req v) = 1"
  by (simp add: do_response [of Do c req resp, OF assms])

theorem C8_body_closed_witness:
  "returned (do (answer (response 200 ''200 OK'' [''1''] None)) exampleClient exampleRequest
              (Typed panicUnmarshal 7 :: (unit, int) target)) = Panic
   \<and> closed (do (answer (response 200 ''200 OK'' [''1''] None)) exampleClient exampleRequest
              (Typed panicUnmarshal 7 :: (unit, int) target)) = 1"
proof -
  have "closed (do (answer (response 200 ''200 OK'' [''1''] None)) exampleClient exampleRequest
              (Typed panicUnmarshal 7 :: (unit, int) target)) = 1"
    by (rule C8_body_closed [where resp = "response 200 ''200 OK'' [''1''] None"])
       (simp add: answer_def)
  moreover have "returned (do (answer (response 200 ''200 OK'' [''1''] None)) exampleClient
              exampleRequest (Typed panicUnmarshal 7 :: (unit, int) target)) = Panic"
    by (simp add: do_def do_body_def answer_def response_def Decode_def isSpace_def
        beginsValue_def panicUnmarshal_def)
  ultimately show ?thesis by simp
qed

text \<open>
  C10. For every response with a status code outside 200..299, \<open>do\<close> returns a nil
  response together with the \<open>RequestError\<close>; and whenever \<open>do\<close> returns a response, it is
  the response received, its status code is in 200..299, and the error is nil.
\<close>

theorem C10_response_only_on_success:
  assumes "Do (client c) req = Inr resp"
  shows "(resp_StatusCode resp < 200 \<or> 299 < resp_StatusCode resp \<longrightarrow>
            (\<exists>e. returned (do Do c req v) = Return None (Some (ReqError e))))
       \<and> (\<forall>r e. returned (do Do c req v) = Return (Some r) e \<longrightarrow>
            r = resp \<and> e = None \<and> 200 \<le> resp_StatusCode resp \<and> resp_StatusCode resp \<le> 299)"
proof (cases "resp_StatusCode resp < 200 \<or> 299 < resp_StatusCode resp")
  case True
  then show ?thesis
    by (simp add: do_response [of Do c req resp, OF assms] do_body_failure)
next
  case False
  then have ok: "200 \<le> resp_StatusCode resp" "resp_StatusCode resp \<le> 299" by auto
  show ?thesis using False
    by (auto simp: do_response [of Do c req resp, OF assms] do_body_success [OF ok]
        split: target.splits copied.splits decoded.splits if_splits)
qed

theorem C10_response_only_on_success_witness:
  "returned (do (answer (response 404 ''404 Not Found'' [] None)) exampleClient exampleRequest
              (Nil :: (unit, unit) target))
     = Return None (Some (ReqError \<lparr>StatusCode = 404, Status = ''404 Not Found'', Body = []\<rparr>))"
proof -
  have "\<exists>e. returned (do (answer (response 404 ''404 Not Found'' [] None)) exampleClient
              exampleRequest (Nil :: (unit, unit) target)) = Return None (Some (ReqError e))"
    using C10_response_only_on_success
      [of "answer (response 404 ''404 Not Found'' [] None)" exampleClient exampleRequest
          "response 404 ''404 Not Found'' [] None" "Nil :: (unit, unit) target"]
    by (simp add: answer_def response_def)
  then show ?thesis
    by (auto simp: do_def do_body_def answer_def response_def ReadAll_def)
qed

end
